theory Spec2Isabelle
  imports Complex_Main
begin

section \<open>Numbers\<close>

text \<open>
  The renderer computes with JavaScript numbers. They are modelled as real numbers; the
  rounding of IEEE doubles is outside the model. Properties whose truth turns on that
  rounding (a strict inequality between two computed pixel distances, the sign of the
  perspective divisor at the edge of the coordinate range) are therefore not stated
  here: over the reals they would say more than the program does.

  The one operation of the renderer that leaves the finite numbers on finite inputs is
  the division in \<open>project\<close>: a zero divisor gives an infinity or NaN instead of
  raising. A value that may be non-finite is a \<open>real option\<close>, \<open>None\<close> standing for NaN
  and the two infinities together. Every arithmetic operation the renderer applies to
  such a value (a product with a finite number, a sum with a finite number, a square, a
  square root) keeps it non-finite, so the operations are lifted with \<open>map_option\<close>.
\<close>

definition js_div :: "real \<Rightarrow> real \<Rightarrow> real option" where
  "js_div a b = (if b = 0 then None else Some (a / b))"

section \<open>Data model (types.ts)\<close>

text \<open>
  The fields \<open>id\<close>, \<open>x\<close>, \<open>y\<close>, \<open>z\<close>, \<open>label\<close> of \<open>Point3D\<close> carry the prefix
  \<open>point_\<close>; an optional field is an \<open>option\<close>.
\<close>

record Point3D =
  point_id :: string
  point_x :: real
  point_y :: real
  point_z :: real
  point_label :: "string option"

datatype SegStyle = solid | dashed

record LineSegment =
  sourceId :: string
  targetId :: string
  style :: SegStyle
  color :: "string option"

record GeometryScene =
  points :: "Point3D list"
  segments :: "LineSegment list"

section \<open>Camera state and projection (GeometryCanvas.tsx)\<close>

text \<open>
  The file holds two revisions of the component. The model follows the later one, which
  has the point selection and the measurement tool; \<open>project\<close> is the same in both.
\<close>

record Rotation =
  rot_x :: real
  rot_y :: real

text \<open>The object returned by \<open>project\<close>: fields \<open>x\<close>, \<open>y\<close>, \<open>scale\<close>, \<open>zIndex\<close>.\<close>

record Projected =
  proj_x :: "real option"
  proj_y :: "real option"
  proj_scale :: "real option"
  zIndex :: real

text \<open>
  \<open>project\<close> closes over the component state \<open>rotation\<close> and \<open>scale\<close>; here they are
  its first two arguments.
\<close>

definition project :: "Rotation \<Rightarrow> real \<Rightarrow> Point3D \<Rightarrow> real \<Rightarrow> real \<Rightarrow> Projected" where
  "project rotation scale point width height =
    (let x = point_x point * cos (rot_y rotation) - point_z point * sin (rot_y rotation);
         z = point_x point * sin (rot_y rotation) + point_z point * cos (rot_y rotation);
         y = point_y point;
         yNew = y * cos (rot_x rotation) - z * sin (rot_x rotation);
         zNew = y * sin (rot_x rotation) + z * cos (rot_x rotation);
         y = yNew;
         z = zNew;
         d = 4;
         factor = js_div scale (d - z * 0.1)
     in \<lparr> proj_x = map_option (\<lambda>f. x * f + width / 2) factor,
          proj_y = map_option (\<lambda>f. - y * f + height / 2) factor,
          proj_scale = factor,
          zIndex = z \<rparr>)"

text \<open>
  The standard rotation of the plane by an angle, as the specification words the two
  rotation steps.
\<close>

definition rotate2d :: "real \<Rightarrow> real \<times> real \<Rightarrow> real \<times> real" where
  "rotate2d a v = (fst v * cos a - snd v * sin a, fst v * sin a + snd v * cos a)"

text \<open>\<open>getDistance\<close>: \<open>Math.pow(v, 2)\<close> is the square.\<close>

definition getDistance :: "Point3D \<Rightarrow> Point3D \<Rightarrow> real" where
  "getDistance p1 p2 =
     sqrt ((point_x p2 - point_x p1)\<^sup>2 + (point_y p2 - point_y p1)\<^sup>2
           + (point_z p2 - point_z p1)\<^sup>2)"

section \<open>Component state and event handlers\<close>

text \<open>
  The \<open>useState\<close> cells and the \<open>mouseDownPos\<close> ref of the component. A handler takes
  the state and returns the state after its updates.
\<close>

record State =
  rotation :: Rotation
  scale :: real
  isDragging :: bool
  lastMouse :: "real \<times> real"
  selectedPointId :: "string option"
  isMeasurementMode :: bool
  measurePoints :: "string list"
  mouseDownPos :: "real \<times> real"

definition initialState :: State where
  "initialState =
     \<lparr> rotation = \<lparr> rot_x = - 0.5, rot_y = 0.5 \<rparr>, scale = 100, isDragging = False,
       lastMouse = (0, 0), selectedPointId = None, isMeasurementMode = False,
       measurePoints = [], mouseDownPos = (0, 0) \<rparr>"

record MouseEvent =
  clientX :: real
  clientY :: real

text \<open>
  The canvas element as the click handler reads it: the left and top of its bounding
  rectangle and its width and height. \<open>canvasRef.current\<close> is an \<open>option\<close>.
\<close>

record Canvas =
  rect_left :: real
  rect_top :: real
  canvas_width :: real
  canvas_height :: real

text \<open>What a handler reads besides the state: the canvas ref and the \<open>scene\<close> prop.\<close>

record Env =
  canvas :: "Canvas option"
  scene :: GeometryScene

text \<open>
  JavaScript truthiness of a \<open>string | null\<close> or optional string: null, undefined and
  the empty string are falsy.
\<close>

definition truthy :: "string option \<Rightarrow> bool" where
  "truthy v = (case v of None \<Rightarrow> False | Some s \<Rightarrow> s \<noteq> [])"

text \<open>
  The distance from the click position to a projected point. It is a square root, so a
  non-finite one is NaN or plus infinity and the comparison \<open>dist < minDist\<close> is false
  for it.
\<close>

definition pixelDist :: "real \<Rightarrow> real \<Rightarrow> Projected \<Rightarrow> real option" where
  "pixelDist x y proj =
     (case proj_x proj of
        None \<Rightarrow> None
      | Some sx \<Rightarrow>
          (case proj_y proj of
             None \<Rightarrow> None
           | Some sy \<Rightarrow> (let dx = x - sx; dy = y - sy in Some (sqrt (dx * dx + dy * dy)))))"

text \<open>
  The \<open>forEach\<close> of the hit test, over the pair \<open>(closestId, minDist)\<close> it updates.
\<close>

fun hitTest ::
  "(Point3D \<Rightarrow> Projected) \<Rightarrow> real \<Rightarrow> real \<Rightarrow> Point3D list \<Rightarrow> string option \<times> real
     \<Rightarrow> string option \<times> real" where
  "hitTest proj x y [] acc = acc"
| "hitTest proj x y (p # ps) acc =
     hitTest proj x y ps
       (case pixelDist x y (proj p) of
          None \<Rightarrow> acc
        | Some dst \<Rightarrow> if dst < snd acc then (Some (point_id p), dst) else acc)"

text \<open>The hit test of \<open>handleCanvasClick\<close> on a mounted canvas.\<close>

definition clickHitTest :: "Canvas \<Rightarrow> GeometryScene \<Rightarrow> State \<Rightarrow> MouseEvent \<Rightarrow> string option \<times> real" where
  "clickHitTest cv sc st e =
     (let x = clientX e - rect_left cv;
          y = clientY e - rect_top cv;
          w = canvas_width cv;
          h = canvas_height cv
      in hitTest (\<lambda>p. project (rotation st) (scale st) p w h) x y (points sc) (None, 20))"

text \<open>The updater passed to \<open>setMeasurePoints\<close> on a click that hit a point.\<close>

definition addMeasurePoint :: "string \<Rightarrow> string list \<Rightarrow> string list" where
  "addMeasurePoint closestId prev =
     (if length prev = 2 then [closestId]
      else if closestId \<in> set prev then prev
      else prev @ [closestId])"

text \<open>The branch of \<open>handleCanvasClick\<close> for a click on empty space.\<close>

definition clickedEmptySpace :: "State \<Rightarrow> State" where
  "clickedEmptySpace st =
     (if \<not> isMeasurementMode st then st\<lparr> selectedPointId := None \<rparr> else st)"

definition handleCanvasClick :: "Env \<Rightarrow> MouseEvent \<Rightarrow> State \<Rightarrow> State" where
  "handleCanvasClick env e st =
     (case canvas env of
        None \<Rightarrow> st
      | Some cv \<Rightarrow>
          (let closestId = fst (clickHitTest cv (scene env) st e)
           in if truthy closestId then
                (if isMeasurementMode st
                 then st\<lparr> measurePoints := addMeasurePoint (the closestId) (measurePoints st) \<rparr>
                 else st\<lparr> selectedPointId := closestId \<rparr>)
              else clickedEmptySpace st))"

definition handleMouseDown :: "MouseEvent \<Rightarrow> State \<Rightarrow> State" where
  "handleMouseDown e st =
     st\<lparr> isDragging := True, lastMouse := (clientX e, clientY e),
         mouseDownPos := (clientX e, clientY e) \<rparr>"

definition handleMouseMove :: "MouseEvent \<Rightarrow> State \<Rightarrow> State" where
  "handleMouseMove e st =
     (if \<not> isDragging st then st
      else
        (let deltaX = clientX e - fst (lastMouse st);
             deltaY = clientY e - snd (lastMouse st)
         in st\<lparr> rotation := \<lparr> rot_x = rot_x (rotation st) + deltaY * 0.01,
                               rot_y = rot_y (rotation st) + deltaX * 0.01 \<rparr>,
                lastMouse := (clientX e, clientY e) \<rparr>))"

definition handleMouseUp :: "Env \<Rightarrow> MouseEvent \<Rightarrow> State \<Rightarrow> State" where
  "handleMouseUp env e st =
     (let st' = st\<lparr> isDragging := False \<rparr>;
          moveDist = sqrt ((clientX e - fst (mouseDownPos st))\<^sup>2
                           + (clientY e - snd (mouseDownPos st))\<^sup>2)
      in if moveDist < 5 then handleCanvasClick env e st' else st')"

definition handleWheel :: "real \<Rightarrow> State \<Rightarrow> State" where
  "handleWheel deltaY st = st\<lparr> scale := max 20 (min 500 (scale st - deltaY * 0.1)) \<rparr>"

definition toggleMeasurementMode :: "State \<Rightarrow> State" where
  "toggleMeasurementMode st =
     (let newMode = \<not> isMeasurementMode st;
          st' = st\<lparr> isMeasurementMode := newMode, measurePoints := [] \<rparr>
      in if newMode then st'\<lparr> selectedPointId := None \<rparr> else st')"

text \<open>The \<open>onClick\<close> of the Select Mode button.\<close>

definition selectModeClick :: "State \<Rightarrow> State" where
  "selectModeClick st =
     st\<lparr> isMeasurementMode := False, measurePoints := [], selectedPointId := None \<rparr>"

text \<open>
  The events the component handles. \<open>onMouseLeave\<close> is bound to \<open>handleMouseUp\<close>. The
  canvas and the scene prop may differ from one event to the next.
\<close>

datatype Event =
    MouseDown MouseEvent
  | MouseMove MouseEvent
  | MouseUp Env MouseEvent
  | MouseLeave Env MouseEvent
  | Wheel real
  | MeasureButton
  | SelectButton

fun step :: "State \<Rightarrow> Event \<Rightarrow> State" where
  "step st (MouseDown e) = handleMouseDown e st"
| "step st (MouseMove e) = handleMouseMove e st"
| "step st (MouseUp env e) = handleMouseUp env e st"
| "step st (MouseLeave env e) = handleMouseUp env e st"
| "step st (Wheel deltaY) = handleWheel deltaY st"
| "step st MeasureButton = toggleMeasurementMode st"
| "step st SelectButton = selectModeClick st"

text \<open>
  The state after a sequence of events from the initial render. Each handler runs on the
  state the previous event left: the component re-renders between two user events, so a
  handler's closure holds the current state.
\<close>

definition run :: "Event list \<Rightarrow> State" where
  "run evs = foldl step initialState evs"

section \<open>The draw pass\<close>

text \<open>
  \<open>Number.prototype.toFixed(2)\<close> on a finite number below \<open>10^21\<close> in magnitude: the
  sign, then the integer \<open>n\<close> nearest to a hundred times the magnitude (the larger one
  on a tie), written in decimal with a point before its last two digits.
\<close>

definition digit_char :: "nat \<Rightarrow> char" where
  "digit_char n = ''0123456789'' ! (n mod 10)"

function show_nat :: "nat \<Rightarrow> string" where
  "show_nat n = (if n < 10 then [digit_char n] else show_nat (n div 10) @ [digit_char n])"
  by pat_completeness auto
termination
  by (relation "measure (\<lambda>n. n)") auto

definition toFixed2 :: "real \<Rightarrow> string" where
  "toFixed2 v =
     (let n = nat \<lfloor>\<bar>v\<bar> * 100 + 1 / 2\<rfloor>
      in (if v < 0 then ''-'' else []) @ show_nat (n div 100) @ ''.''
           @ [digit_char (n div 10), digit_char n])"

text \<open>
  The canvas calls of a draw pass, one constructor for each stroke, fill or text of a
  layer, with the projections and texts it is drawn from. Colours, line widths and fonts
  are constants of the layer and are left out.
\<close>

datatype DrawOp =
    GridLine Projected Projected
  | AxisLine Projected Projected string
  | SegmentLine Projected Projected SegStyle
  | MeasureLine Projected Projected
  | MeasureBadge string "real option" "real option"
  | MeasureRing Projected
  | PointDot Projected bool "string option"
  | SelectedHighlight Projected string

definition gridPoint :: "string \<Rightarrow> real \<Rightarrow> real \<Rightarrow> Point3D" where
  "gridPoint i gx gz =
     \<lparr> point_id = i, point_x = gx, point_y = 0, point_z = gz, point_label = None \<rparr>"

definition drawGrid :: "(Point3D \<Rightarrow> Projected) \<Rightarrow> DrawOp list" where
  "drawGrid proj =
     (let gridSize = 10
      in concat (map (\<lambda>i. [GridLine (proj (gridPoint ''g1'' (real_of_int i) (- gridSize)))
                                     (proj (gridPoint ''g2'' (real_of_int i) gridSize)),
                            GridLine (proj (gridPoint ''g3'' (- gridSize) (real_of_int i)))
                                     (proj (gridPoint ''g4'' gridSize (real_of_int i)))])
                     [- 10 .. 10]))"

definition drawAxes :: "(Point3D \<Rightarrow> Projected) \<Rightarrow> DrawOp list" where
  "drawAxes proj =
     (let axisLength = 3;
          origin = \<lparr> point_id = ''origin'', point_x = 0, point_y = 0, point_z = 0,
                     point_label = None \<rparr>;
          xAxis = \<lparr> point_id = ''axis-x'', point_x = axisLength, point_y = 0, point_z = 0,
                    point_label = None \<rparr>;
          yAxis = \<lparr> point_id = ''axis-y'', point_x = 0, point_y = axisLength, point_z = 0,
                    point_label = None \<rparr>;
          zAxis = \<lparr> point_id = ''axis-z'', point_x = 0, point_y = 0, point_z = axisLength,
                    point_label = None \<rparr>
      in [AxisLine (proj origin) (proj xAxis) ''X'',
          AxisLine (proj origin) (proj yAxis) ''Y'',
          AxisLine (proj origin) (proj zAxis) ''Z''])"

text \<open>The \<open>projectedPoints\<close> map: a later point of the same id overwrites an earlier one.\<close>

definition projectAll :: "(Point3D \<Rightarrow> Projected) \<Rightarrow> Point3D list \<Rightarrow> (string \<rightharpoonup> Projected)" where
  "projectAll proj ps = foldl (\<lambda>m p. m(point_id p \<mapsto> proj p)) Map.empty ps"

text \<open>
  One segment of the segment layer. A projection in the map is an object, hence truthy:
  \<open>p1 && p2\<close> holds exactly when both ids are keys of the map.
\<close>

definition drawSegment :: "(string \<rightharpoonup> Projected) \<Rightarrow> LineSegment \<Rightarrow> DrawOp list" where
  "drawSegment projectedPoints seg =
     (case projectedPoints (sourceId seg) of
        None \<Rightarrow> []
      | Some p1 \<Rightarrow>
          (case projectedPoints (targetId seg) of
             None \<Rightarrow> []
           | Some p2 \<Rightarrow> [SegmentLine p1 p2 (style seg)]))"

definition drawSegments :: "(string \<rightharpoonup> Projected) \<Rightarrow> LineSegment list \<Rightarrow> DrawOp list" where
  "drawSegments projectedPoints segs = concat (map (drawSegment projectedPoints) segs)"

text \<open>The midpoint of two screen coordinates, non-finite when either is.\<close>

definition midpoint_js :: "real option \<Rightarrow> real option \<Rightarrow> real option" where
  "midpoint_js a b =
     (case a of None \<Rightarrow> None
      | Some u \<Rightarrow> (case b of None \<Rightarrow> None | Some v \<Rightarrow> Some ((u + v) / 2)))"

text \<open>The measurement layer: connector, distance badge and a ring at each found point.\<close>

definition drawMeasurement ::
  "(string \<rightharpoonup> Projected) \<Rightarrow> Point3D list \<Rightarrow> string list \<Rightarrow> DrawOp list" where
  "drawMeasurement projectedPoints pts mps =
     (if length mps > 0 then
        (let p1Data = find (\<lambda>p. point_id p = mps ! 0) pts;
             p2Data = (if length mps > 1 then find (\<lambda>p. point_id p = mps ! 1) pts else None);
             proj1 = (case p1Data of None \<Rightarrow> None | Some p \<Rightarrow> projectedPoints (point_id p));
             proj2 = (case p2Data of None \<Rightarrow> None | Some p \<Rightarrow> projectedPoints (point_id p))
         in (case (proj1, proj2, p1Data, p2Data) of
               (Some a, Some b, Some p1, Some p2) \<Rightarrow>
                 [MeasureLine a b,
                  MeasureBadge (toFixed2 (getDistance p1 p2))
                    (midpoint_js (proj_x a) (proj_x b)) (midpoint_js (proj_y a) (proj_y b))]
             | _ \<Rightarrow> [])
            @ concat (map (\<lambda>proj. case proj of None \<Rightarrow> [] | Some a \<Rightarrow> [MeasureRing a])
                          [proj1, proj2]))
      else [])"

text \<open>
  The \<open>forEach\<close> of the point layer, over the dots drawn so far and the pair
  \<open>(selectedProj, selectedPointData)\<close> it saves for the top layer.
\<close>

definition drawPoint ::
  "(string \<rightharpoonup> Projected) \<Rightarrow> State \<Rightarrow> DrawOp list \<times> (Projected \<times> Point3D) option \<Rightarrow> Point3D
     \<Rightarrow> DrawOp list \<times> (Projected \<times> Point3D) option" where
  "drawPoint projectedPoints st acc p =
     (case projectedPoints (point_id p) of
        None \<Rightarrow> acc
      | Some proj \<Rightarrow>
          if Some (point_id p) = selectedPointId st \<and> \<not> isMeasurementMode st
          then (fst acc, Some (proj, p))
          else (fst acc @ [PointDot proj (point_id p \<in> set (measurePoints st))
                             (if truthy (point_label p) then point_label p else None)],
                snd acc))"

text \<open>The tooltip text of the selected point: \<open>label || id\<close>, then the coordinates.\<close>

definition tooltipText :: "Point3D \<Rightarrow> string" where
  "tooltipText p =
     (if truthy (point_label p) then the (point_label p) else point_id p)
     @ '': ('' @ toFixed2 (point_x p) @ '', '' @ toFixed2 (point_y p) @ '', ''
     @ toFixed2 (point_z p) @ '')''"

text \<open>
  \<open>draw\<close>, on the canvas after its resize. A missing canvas (or 2D context) makes the
  pass a no-op.
\<close>

definition draw :: "Canvas option \<Rightarrow> GeometryScene \<Rightarrow> State \<Rightarrow> DrawOp list" where
  "draw cvo sc st =
     (case cvo of
        None \<Rightarrow> []
      | Some cv \<Rightarrow>
          (let proj = (\<lambda>p. project (rotation st) (scale st) p (canvas_width cv) (canvas_height cv));
               projectedPoints = projectAll proj (points sc);
               dots = foldl (drawPoint projectedPoints st) ([], None) (points sc)
           in drawGrid proj @ drawAxes proj
              @ drawSegments projectedPoints (segments sc)
              @ drawMeasurement projectedPoints (points sc) (measurePoints st)
              @ fst dots
              @ (case snd dots of
                   None \<Rightarrow> []
                 | Some (sproj, sp) \<Rightarrow> [SelectedHighlight sproj (tooltipText sp)])))"

text \<open>The texts of the distance badges among the calls of a draw pass.\<close>

fun badgeTexts :: "DrawOp list \<Rightarrow> string list" where
  "badgeTexts [] = []"
| "badgeTexts (MeasureBadge txt mx my # ops) = txt # badgeTexts ops"
| "badgeTexts (opn # ops) = badgeTexts ops"

section \<open>Reachable states\<close>

text \<open>
  What every handler keeps: no detail selection in measurement mode, no measurement pair
  in select mode, at most two measurement ids, the zoom scale inside its clamp.
\<close>

definition state_ok :: "State \<Rightarrow> bool" where
  "state_ok st \<longleftrightarrow>
     (isMeasurementMode st \<longrightarrow> selectedPointId st = None)
     \<and> (\<not> isMeasurementMode st \<longrightarrow> measurePoints st = [])
     \<and> length (measurePoints st) \<le> 2
     \<and> 20 \<le> scale st \<and> scale st \<le> 500"

section \<open>A concrete scene\<close>

text \<open>
  A mounted 800 by 600 canvas, three points and two segments (one with a dangling
  target), and the camera facing the X-Y plane at the initial scale: the inputs at which
  the theorems below are instantiated.
\<close>

definition example_canvas :: Canvas where
  "example_canvas = \<lparr> rect_left = 0, rect_top = 0, canvas_width = 800, canvas_height = 600 \<rparr>"

definition example_point :: "string \<Rightarrow> real \<Rightarrow> real \<Rightarrow> real \<Rightarrow> Point3D" where
  "example_point i a b c =
     \<lparr> point_id = i, point_x = a, point_y = b, point_z = c, point_label = None \<rparr>"

definition example_scene :: GeometryScene where
  "example_scene =
     \<lparr> points = [example_point ''A'' 0 0 0, example_point ''B'' 4 0 0, example_point ''C'' 3 4 0],
       segments = [\<lparr> sourceId = ''A'', targetId = ''B'', style = solid, color = None \<rparr>,
                   \<lparr> sourceId = ''B'', targetId = ''Z'', style = dashed, color = None \<rparr>] \<rparr>"

definition example_env :: Env where
  "example_env = \<lparr> canvas = Some example_canvas, scene = example_scene \<rparr>"

definition front_view :: State where
  "front_view = initialState\<lparr> rotation := \<lparr> rot_x = 0, rot_y = 0 \<rparr> \<rparr>"

definition click_at :: "real \<Rightarrow> real \<Rightarrow> MouseEvent" where
  "click_at a b = \<lparr> clientX = a, clientY = b \<rparr>"

definition measuring_view :: State where
  "measuring_view = front_view\<lparr> isMeasurementMode := True \<rparr>"

section \<open>Notions used to state the properties\<close>

text \<open>The coordinates of a point, without its id and label.\<close>

definition coords :: "Point3D \<Rightarrow> real \<times> real \<times> real" where
  "coords p = (point_x p, point_y p, point_z p)"

text \<open>The pixel distance from a click to a scene point, as the hit test computes it.\<close>

definition clickDist :: "Canvas \<Rightarrow> State \<Rightarrow> MouseEvent \<Rightarrow> Point3D \<Rightarrow> real option" where
  "clickDist cv st e p =
     pixelDist (clientX e - rect_left cv) (clientY e - rect_top cv)
       (project (rotation st) (scale st) p (canvas_width cv) (canvas_height cv))"

text \<open>The \<open>projectedPoints\<close> map of a draw pass on a mounted canvas.\<close>

definition framePoints :: "Canvas \<Rightarrow> GeometryScene \<Rightarrow> State \<Rightarrow> (string \<rightharpoonup> Projected)" where
  "framePoints cv sc st =
     projectAll (\<lambda>p. project (rotation st) (scale st) p (canvas_width cv) (canvas_height cv))
       (points sc)"

text \<open>A segment is resolvable in a scene when both of its ids are ids of scene points.\<close>

definition resolvable :: "GeometryScene \<Rightarrow> LineSegment \<Rightarrow> bool" where
  "resolvable sc seg \<longleftrightarrow>
     sourceId seg \<in> point_id ` set (points sc) \<and> targetId seg \<in> point_id ` set (points sc)"

text \<open>The test of the point layer that sets a point aside for the top layer.\<close>

definition pointSelected :: "State \<Rightarrow> Point3D \<Rightarrow> bool" where
  "pointSelected st p \<longleftrightarrow> Some (point_id p) = selectedPointId st \<and> \<not> isMeasurementMode st"

text \<open>
  The two points the measurement layer looks up for the first two measurement ids, when
  both are in the scene.
\<close>

definition measuredPair :: "Point3D list \<Rightarrow> string list \<Rightarrow> (Point3D \<times> Point3D) option" where
  "measuredPair pts mps =
     (if length mps > 1 then
        (case find (\<lambda>p. point_id p = mps ! 0) pts of
           None \<Rightarrow> None
         | Some p1 \<Rightarrow>
             (case find (\<lambda>p. point_id p = mps ! 1) pts of
                None \<Rightarrow> None
              | Some p2 \<Rightarrow> Some (p1, p2)))
      else None)"

text \<open>The two segments of the concrete scene.\<close>

definition sound_segment :: LineSegment where
  "sound_segment = \<lparr> sourceId = ''A'', targetId = ''B'', style = solid, color = None \<rparr>"

definition dangling_segment :: LineSegment where
  "dangling_segment = \<lparr> sourceId = ''B'', targetId = ''Z'', style = dashed, color = None \<rparr>"

section \<open>Properties of the projection\<close>

lemma rotate2d_polar:
  "rotate2d a (r * cos b, r * sin b) = (r * cos (a + b), r * sin (a + b))"
  by (simp add: rotate2d_def cos_add sin_add algebra_simps)

lemma rotation_square_sum:
  fixes a b c s :: real
  shows "(a * c - b * s)\<^sup>2 + (a * s + b * c)\<^sup>2 = (a\<^sup>2 + b\<^sup>2) * (s\<^sup>2 + c\<^sup>2)"
  by (simp add: power2_eq_square algebra_simps)

lemma rotate2d_norm:
  "(fst (rotate2d a v))\<^sup>2 + (snd (rotate2d a v))\<^sup>2 = (fst v)\<^sup>2 + (snd v)\<^sup>2"
  unfolding rotate2d_def fst_conv snd_conv rotation_square_sum
  by simp

text \<open>
  C1. \<open>project\<close> rotates the point about the Y axis by \<open>rotationY\<close> (a rotation of the
  X-Z plane), then about the X axis by \<open>rotationX\<close> (a rotation of the Y-Z plane, on the
  z of the first step), computes \<open>factor = scale / (4 - z * 0.1)\<close> from the rotated z and
  returns \<open>x * factor + width / 2\<close>, \<open>- y * factor + height / 2\<close> and the rotated z. The
  result is a function of the arguments alone.
\<close>

theorem project_rotate_then_perspective:
  "project rot s p w h =
     (let xz = rotate2d (rot_y rot) (point_x p, point_z p);
          yz = rotate2d (rot_x rot) (point_y p, snd xz);
          factor = js_div s (4 - snd yz * 0.1)
      in \<lparr> proj_x = map_option (\<lambda>f. fst xz * f + w / 2) factor,
           proj_y = map_option (\<lambda>f. - fst yz * f + h / 2) factor,
           proj_scale = factor,
           zIndex = snd yz \<rparr>)"
  by (simp add: project_def rotate2d_def Let_def)

text \<open>
  C4. The origin projects to the centre of the viewport, whatever the rotation, the zoom
  scale and the viewport size.
\<close>

theorem project_origin_center:
  "proj_x (project rot s \<lparr> point_id = i, point_x = 0, point_y = 0, point_z = 0,
                                point_label = l \<rparr> w h) = Some (w / 2)
   \<and> proj_y (project rot s \<lparr> point_id = i, point_x = 0, point_y = 0, point_z = 0,
                                point_label = l \<rparr> w h) = Some (h / 2)"
  by (simp add: project_def js_div_def Let_def)

section \<open>Properties of the interaction state\<close>

lemma addMeasurePoint_length: "length prev \<le> 2 \<Longrightarrow> length (addMeasurePoint c prev) \<le> 2"
  by (auto simp: addMeasurePoint_def)

lemma handleCanvasClick_ok: "state_ok st \<Longrightarrow> state_ok (handleCanvasClick env e st)"
  by (auto simp: state_ok_def handleCanvasClick_def clickedEmptySpace_def Let_def
        addMeasurePoint_length split: option.splits)

lemma handleMouseUp_ok:
  assumes "state_ok st"
  shows "state_ok (handleMouseUp env e st)"
proof -
  have "state_ok (st\<lparr>isDragging := False\<rparr>)"
    using assms by (simp add: state_ok_def)
  then show ?thesis
    by (simp add: handleMouseUp_def Let_def handleCanvasClick_ok)
qed

lemma step_ok:
  assumes "state_ok st"
  shows "state_ok (step st ev)"
proof (cases ev)
  case (MouseDown e)
  then show ?thesis using assms by (simp add: state_ok_def handleMouseDown_def)
next
  case (MouseMove e)
  then show ?thesis using assms by (simp add: state_ok_def handleMouseMove_def Let_def)
next
  case (MouseUp env e)
  then show ?thesis using assms by (simp add: handleMouseUp_ok)
next
  case (MouseLeave env e)
  then show ?thesis using assms by (simp add: handleMouseUp_ok)
next
  case (Wheel deltaY)
  then show ?thesis using assms by (simp add: state_ok_def handleWheel_def)
next
  case MeasureButton
  then show ?thesis using assms by (simp add: state_ok_def toggleMeasurementMode_def Let_def)
next
  case SelectButton
  then show ?thesis using assms by (simp add: state_ok_def selectModeClick_def)
qed

lemma run_ok: "state_ok (run evs)"
proof (induction evs rule: rev_induct)
  case Nil
  show ?case by (simp add: run_def state_ok_def initialState_def)
next
  case (snoc ev evs)
  then show ?case by (simp add: run_def step_ok)
qed

text \<open>
  C2. The scale starts at 100, a wheel event sets it to
  \<open>max 20 (min 500 (scale - deltaY * 0.1))\<close>, and after any sequence of wheel events
  (indeed of any events) it lies in \<open>[20, 500]\<close>.
\<close>

theorem wheel_scale_clamped:
  "scale initialState = 100
   \<and> scale (step st (Wheel deltaY)) = max 20 (min 500 (scale st - deltaY * 0.1))
   \<and> 20 \<le> scale (run (map Wheel deltas)) \<and> scale (run (map Wheel deltas)) \<le> 500
   \<and> 20 \<le> scale (run evs) \<and> scale (run evs) \<le> 500"
  using run_ok [of evs] run_ok [of "map Wheel deltas"]
  by (simp add: state_ok_def initialState_def handleWheel_def)

text \<open>
  C6. In every reachable state a detail selection and a non-empty measurement pair do not
  coexist, and after the measurement toggle or the Select Mode button both are cleared.
  Toggling measurement mode on clears the selection, and toggling clears the pair, from
  any state.
\<close>

theorem mode_toggle_exclusive:
  "(selectedPointId (run evs) = None \<or> measurePoints (run evs) = [])
   \<and> selectedPointId (toggleMeasurementMode (run evs)) = None
   \<and> measurePoints (toggleMeasurementMode (run evs)) = []
   \<and> selectedPointId (selectModeClick (run evs)) = None
   \<and> measurePoints (selectModeClick (run evs)) = []
   \<and> isMeasurementMode (toggleMeasurementMode st) = (\<not> isMeasurementMode st)
   \<and> isMeasurementMode (selectModeClick st) = False
   \<and> selectedPointId (toggleMeasurementMode (st\<lparr> isMeasurementMode := False \<rparr>)) = None
   \<and> measurePoints (toggleMeasurementMode st) = []"
  using run_ok [of evs]
  by (auto simp: state_ok_def toggleMeasurementMode_def selectModeClick_def Let_def)

lemma click_on_point_measure:
  assumes "isMeasurementMode st" "canvas env = Some cv"
    and "fst (clickHitTest cv (scene env) st e) = Some c" "c \<noteq> []"
  shows "handleCanvasClick env e st = st\<lparr> measurePoints := addMeasurePoint c (measurePoints st) \<rparr>"
  using assms by (simp add: handleCanvasClick_def truthy_def Let_def)

text \<open>
  C3. The update of the measurement pair on a click that hit a point: a pair of two ids
  becomes the clicked id alone; otherwise a clicked id already in the pair leaves it
  unchanged, and a new one is appended. A click in measurement mode whose hit test finds
  a (non-empty) id applies this update. The pair of a reachable state has at most two
  ids, and three clicks hitting \<open>A\<close>, \<open>B\<close>, \<open>C\<close> from the empty pair give \<open>[A]\<close>,
  \<open>[A, B]\<close>, \<open>[C]\<close>.
\<close>

theorem measure_pair_rollover:
  "(length prev = 2 \<longrightarrow> addMeasurePoint c prev = [c])
   \<and> (length prev \<noteq> 2 \<and> c \<in> set prev \<longrightarrow> addMeasurePoint c prev = prev)
   \<and> (length prev \<noteq> 2 \<and> c \<notin> set prev \<longrightarrow> addMeasurePoint c prev = prev @ [c])
   \<and> (isMeasurementMode st \<and> canvas env = Some cv
        \<and> fst (clickHitTest cv (scene env) st e) = Some c \<and> c \<noteq> []
      \<longrightarrow> measurePoints (handleCanvasClick env e st) = addMeasurePoint c (measurePoints st))
   \<and> length (measurePoints (run evs)) \<le> 2
   \<and> (let st1 = handleCanvasClick env1 e1 st0;
           st2 = handleCanvasClick env2 e2 st1;
           st3 = handleCanvasClick env3 e3 st2
       in isMeasurementMode st0 \<and> measurePoints st0 = []
          \<and> canvas env1 = Some cv1 \<and> fst (clickHitTest cv1 (scene env1) st0 e1) = Some A
          \<and> canvas env2 = Some cv2 \<and> fst (clickHitTest cv2 (scene env2) st1 e2) = Some B
          \<and> canvas env3 = Some cv3 \<and> fst (clickHitTest cv3 (scene env3) st2 e3) = Some C
          \<and> A \<noteq> [] \<and> B \<noteq> [] \<and> C \<noteq> [] \<and> A \<noteq> B
        \<longrightarrow> measurePoints st1 = [A] \<and> measurePoints st2 = [A, B] \<and> measurePoints st3 = [C])"
proof -
  have upd: "(length prev = 2 \<longrightarrow> addMeasurePoint c prev = [c])
     \<and> (length prev \<noteq> 2 \<and> c \<in> set prev \<longrightarrow> addMeasurePoint c prev = prev)
     \<and> (length prev \<noteq> 2 \<and> c \<notin> set prev \<longrightarrow> addMeasurePoint c prev = prev @ [c])"
    by (simp add: addMeasurePoint_def)
  have click: "isMeasurementMode st \<and> canvas env = Some cv
        \<and> fst (clickHitTest cv (scene env) st e) = Some c \<and> c \<noteq> []
      \<longrightarrow> measurePoints (handleCanvasClick env e st) = addMeasurePoint c (measurePoints st)"
    by (simp add: click_on_point_measure)
  have bound: "length (measurePoints (run evs)) \<le> 2"
    using run_ok [of evs] by (simp add: state_ok_def)
  have seq: "measurePoints st1 = [A] \<and> measurePoints st2 = [A, B] \<and> measurePoints st3 = [C]"
    if st1: "st1 = handleCanvasClick env1 e1 st0"
      and st2: "st2 = handleCanvasClick env2 e2 st1"
      and st3: "st3 = handleCanvasClick env3 e3 st2"
      and m: "isMeasurementMode st0" and e0: "measurePoints st0 = []"
      and h1: "canvas env1 = Some cv1" "fst (clickHitTest cv1 (scene env1) st0 e1) = Some A"
      and h2: "canvas env2 = Some cv2" "fst (clickHitTest cv2 (scene env2) st1 e2) = Some B"
      and h3: "canvas env3 = Some cv3" "fst (clickHitTest cv3 (scene env3) st2 e3) = Some C"
      and ne: "A \<noteq> []" "B \<noteq> []" "C \<noteq> []" "A \<noteq> B"
    for st1 st2 st3
  proof -
    have s1: "st1 = st0\<lparr> measurePoints := [A] \<rparr>"
      using click_on_point_measure [OF m h1 ne(1)] e0 st1 by (simp add: addMeasurePoint_def)
    then have m1: "isMeasurementMode st1" using m by simp
    have s2: "st2 = st1\<lparr> measurePoints := [A, B] \<rparr>"
      using click_on_point_measure [OF m1 h2 ne(2)] s1 st2 ne(4)
      by (simp add: addMeasurePoint_def)
    then have m2: "isMeasurementMode st2" using m1 by simp
    have s3: "st3 = st2\<lparr> measurePoints := [C] \<rparr>"
      using click_on_point_measure [OF m2 h3 ne(3)] s2 st3 by (simp add: addMeasurePoint_def)
    show ?thesis using s1 s2 s3 by simp
  qed
  show ?thesis
    unfolding Let_def using upd click bound seq by blast
qed

lemma sqrt_less_iff_square: "0 < b \<Longrightarrow> sqrt a < b \<longleftrightarrow> a < b\<^sup>2"
  by (metis real_sqrt_less_iff real_sqrt_abs abs_of_pos)

lemma example_hits:
  assumes "rotation st = \<lparr> rot_x = 0, rot_y = 0 \<rparr>" and "scale st = 100"
  shows "clickHitTest example_canvas example_scene st (click_at 400 300) = (Some ''A'', 0)"
    and "clickHitTest example_canvas example_scene st (click_at 500 300) = (Some ''B'', 0)"
    and "clickHitTest example_canvas example_scene st (click_at 475 200) = (Some ''C'', 0)"
    and "clickHitTest example_canvas example_scene st (click_at 10 10) = (None, 20)"
  using assms
  by (simp_all add: example_canvas_def example_point_def example_scene_def click_at_def
        clickHitTest_def project_def js_div_def pixelDist_def Let_def sqrt_less_iff_square)

lemma measuring_view_hits:
  "clickHitTest example_canvas example_scene (measuring_view\<lparr> measurePoints := m \<rparr>)
     (click_at 400 300) = (Some ''A'', 0)"
  "clickHitTest example_canvas example_scene (measuring_view\<lparr> measurePoints := m \<rparr>)
     (click_at 500 300) = (Some ''B'', 0)"
  "clickHitTest example_canvas example_scene (measuring_view\<lparr> measurePoints := m \<rparr>)
     (click_at 475 200) = (Some ''C'', 0)"
  by (simp_all add: example_hits measuring_view_def front_view_def initialState_def)

lemma measuring_view_click:
  assumes "clickHitTest example_canvas example_scene (measuring_view\<lparr> measurePoints := m \<rparr>) e
           = (Some c, r)"
    and "c \<noteq> []"
  shows "handleCanvasClick example_env e (measuring_view\<lparr> measurePoints := m \<rparr>)
         = measuring_view\<lparr> measurePoints := addMeasurePoint c m \<rparr>"
  using assms
  by (simp add: handleCanvasClick_def truthy_def Let_def measuring_view_def example_env_def)

lemma measuring_view_clicks:
  "handleCanvasClick example_env (click_at 400 300) measuring_view
     = measuring_view\<lparr> measurePoints := [''A''] \<rparr>"
  "handleCanvasClick example_env (click_at 500 300) (measuring_view\<lparr> measurePoints := [''A''] \<rparr>)
     = measuring_view\<lparr> measurePoints := [''A'', ''B''] \<rparr>"
  "handleCanvasClick example_env (click_at 475 200)
       (measuring_view\<lparr> measurePoints := [''A'', ''B''] \<rparr>)
     = measuring_view\<lparr> measurePoints := [''C''] \<rparr>"
proof -
  have "measuring_view = measuring_view\<lparr> measurePoints := [] \<rparr>"
    by (simp add: measuring_view_def front_view_def initialState_def)
  then show "handleCanvasClick example_env (click_at 400 300) measuring_view
     = measuring_view\<lparr> measurePoints := [''A''] \<rparr>"
    using measuring_view_click [OF measuring_view_hits(1), of "[]"] by (simp add: addMeasurePoint_def)
  show "handleCanvasClick example_env (click_at 500 300) (measuring_view\<lparr> measurePoints := [''A''] \<rparr>)
     = measuring_view\<lparr> measurePoints := [''A'', ''B''] \<rparr>"
    using measuring_view_click [OF measuring_view_hits(2), of "[''A'']"] by (simp add: addMeasurePoint_def)
  show "handleCanvasClick example_env (click_at 475 200)
       (measuring_view\<lparr> measurePoints := [''A'', ''B''] \<rparr>)
     = measuring_view\<lparr> measurePoints := [''C''] \<rparr>"
    using measuring_view_click [OF measuring_view_hits(3), of "[''A'', ''B'']"] by (simp add: addMeasurePoint_def)
qed

text \<open>The rollover on the concrete scene, clicking its three points in turn.\<close>

theorem measure_pair_rollover_witness:
  "isMeasurementMode measuring_view \<and> measurePoints measuring_view = []
   \<and> canvas example_env = Some example_canvas
   \<and> fst (clickHitTest example_canvas (scene example_env) measuring_view (click_at 400 300))
       = Some ''A''
   \<and> fst (clickHitTest example_canvas (scene example_env)
            (handleCanvasClick example_env (click_at 400 300) measuring_view) (click_at 500 300))
       = Some ''B''
   \<and> fst (clickHitTest example_canvas (scene example_env)
            (handleCanvasClick example_env (click_at 500 300)
               (handleCanvasClick example_env (click_at 400 300) measuring_view))
            (click_at 475 200))
       = Some ''C''
   \<and> measurePoints (handleCanvasClick example_env (click_at 400 300) measuring_view) = [''A'']
   \<and> measurePoints (handleCanvasClick example_env (click_at 500 300)
         (handleCanvasClick example_env (click_at 400 300) measuring_view)) = [''A'', ''B'']
   \<and> measurePoints (handleCanvasClick example_env (click_at 475 200)
         (handleCanvasClick example_env (click_at 500 300)
           (handleCanvasClick example_env (click_at 400 300) measuring_view))) = [''C'']
   \<and> addMeasurePoint ''C'' [''A'', ''B''] = [''C'']
   \<and> addMeasurePoint ''A'' [''A''] = [''A'']
   \<and> addMeasurePoint ''B'' [''A''] = [''A'', ''B'']"
proof -
  have h0: "isMeasurementMode measuring_view \<and> measurePoints measuring_view = []
            \<and> canvas example_env = Some example_canvas"
    by (simp add: measuring_view_def front_view_def initialState_def example_env_def)
  have sc: "scene example_env = example_scene" by (simp add: example_env_def)
  have c1: "handleCanvasClick example_env (click_at 400 300) measuring_view
            = measuring_view\<lparr> measurePoints := [''A''] \<rparr>"
    by (rule measuring_view_clicks)
  have c2: "handleCanvasClick example_env (click_at 500 300)
              (handleCanvasClick example_env (click_at 400 300) measuring_view)
            = measuring_view\<lparr> measurePoints := [''A'', ''B''] \<rparr>"
    unfolding c1 by (rule measuring_view_clicks)
  have h1: "fst (clickHitTest example_canvas (scene example_env) measuring_view (click_at 400 300))
       = Some ''A''"
    by (simp add: sc example_hits measuring_view_def front_view_def initialState_def)
  have h2: "fst (clickHitTest example_canvas (scene example_env)
            (handleCanvasClick example_env (click_at 400 300) measuring_view) (click_at 500 300))
       = Some ''B''"
    unfolding c1 by (simp add: sc measuring_view_hits)
  have h3: "fst (clickHitTest example_canvas (scene example_env)
            (handleCanvasClick example_env (click_at 500 300)
               (handleCanvasClick example_env (click_at 400 300) measuring_view))
            (click_at 475 200))
       = Some ''C''"
    unfolding c2 by (simp add: sc measuring_view_hits)
  note inst = measure_pair_rollover [where ?st0.0 = measuring_view and ?env1.0 = example_env
      and ?env2.0 = example_env and ?env3.0 = example_env and ?cv1.0 = example_canvas
      and ?cv2.0 = example_canvas and ?cv3.0 = example_canvas
      and ?e1.0 = "click_at 400 300" and ?e2.0 = "click_at 500 300" and ?e3.0 = "click_at 475 200"
      and A = "''A''" and B = "''B''" and C = "''C''", unfolded Let_def]
  have seq: "measurePoints (handleCanvasClick example_env (click_at 400 300) measuring_view) = [''A'']
   \<and> measurePoints (handleCanvasClick example_env (click_at 500 300)
         (handleCanvasClick example_env (click_at 400 300) measuring_view)) = [''A'', ''B'']
   \<and> measurePoints (handleCanvasClick example_env (click_at 475 200)
         (handleCanvasClick example_env (click_at 500 300)
           (handleCanvasClick example_env (click_at 400 300) measuring_view))) = [''C'']"
    using inst h0 h1 h2 h3 by simp
  have u1: "addMeasurePoint ''C'' [''A'', ''B''] = [''C'']"
    using measure_pair_rollover [where prev = "[''A'', ''B'']" and c = "''C''"] by simp
  have u2: "addMeasurePoint ''A'' [''A''] = [''A'']"
    using measure_pair_rollover [where prev = "[''A'']" and c = "''A''"] by simp
  have u3: "addMeasurePoint ''B'' [''A''] = [''A'', ''B'']"
    using measure_pair_rollover [where prev = "[''A'']" and c = "''B''"] by simp
  show ?thesis using h0 h1 h2 h3 seq u1 u2 u3 by simp
qed

section \<open>Properties of the hit test\<close>

lemma hitTest_result:
  "snd (hitTest proj x y ps acc) \<le> snd acc
   \<and> (\<forall>q\<in>set ps. \<forall>d. pixelDist x y (proj q) = Some d \<longrightarrow> snd (hitTest proj x y ps acc) \<le> d)
   \<and> (hitTest proj x y ps acc = acc
       \<or> (\<exists>p\<in>set ps. fst (hitTest proj x y ps acc) = Some (point_id p)
             \<and> pixelDist x y (proj p) = Some (snd (hitTest proj x y ps acc))
             \<and> snd (hitTest proj x y ps acc) < snd acc))"
proof (induction ps arbitrary: acc)
  case Nil
  show ?case by simp
next
  case (Cons p ps)
  define acc' where "acc' = (case pixelDist x y (proj p) of
          None \<Rightarrow> acc
        | Some dst \<Rightarrow> if dst < snd acc then (Some (point_id p), dst) else acc)"
  define r where "r = hitTest proj x y ps acc'"
  have r: "hitTest proj x y (p # ps) acc = r"
    by (simp add: r_def acc'_def)
  have le: "snd acc' \<le> snd acc"
    by (simp add: acc'_def split: option.splits)
  have head: "\<forall>d. pixelDist x y (proj p) = Some d \<longrightarrow> snd acc' \<le> d"
    by (simp add: acc'_def)
  have step: "acc' = acc
      \<or> (fst acc' = Some (point_id p) \<and> pixelDist x y (proj p) = Some (snd acc')
          \<and> snd acc' < snd acc)"
    by (simp add: acc'_def split: option.splits)
  note IH = Cons.IH [of acc', folded r_def]
  have 1: "snd r \<le> snd acc" using IH le by linarith
  have 2: "\<forall>q\<in>set (p # ps). \<forall>d. pixelDist x y (proj q) = Some d \<longrightarrow> snd r \<le> d"
    using IH head by fastforce
  have 3: "r = acc
       \<or> (\<exists>q\<in>set (p # ps). fst r = Some (point_id q)
             \<and> pixelDist x y (proj q) = Some (snd r) \<and> snd r < snd acc)"
  proof (cases "r = acc'")
    case True
    then show ?thesis using step by auto
  next
    case False
    then obtain q where "q \<in> set ps" "fst r = Some (point_id q)"
      "pixelDist x y (proj q) = Some (snd r)" "snd r < snd acc'"
      using IH by blast
    then show ?thesis using le by fastforce
  qed
  show ?case unfolding r using 1 2 3 by blast
qed

lemma clickHitTest_hit:
  assumes "fst (clickHitTest cv sc st e) = Some i"
  shows "\<exists>p\<in>set (points sc). point_id p = i
           \<and> clickDist cv st e p = Some (snd (clickHitTest cv sc st e))
           \<and> snd (clickHitTest cv sc st e) < 20
           \<and> (\<forall>q\<in>set (points sc). \<forall>d. clickDist cv st e q = Some d
                 \<longrightarrow> snd (clickHitTest cv sc st e) \<le> d)"
proof -
  let ?proj = "\<lambda>p. project (rotation st) (scale st) p (canvas_width cv) (canvas_height cv)"
  let ?x = "clientX e - rect_left cv" and ?y = "clientY e - rect_top cv"
  let ?r = "hitTest ?proj ?x ?y (points sc) (None, 20)"
  have r: "clickHitTest cv sc st e = ?r" by (simp add: clickHitTest_def Let_def)
  note res = hitTest_result [of ?proj ?x ?y "points sc" "(None, 20)"]
  have "?r \<noteq> (None, 20)" using assms r by auto
  then obtain p where "p \<in> set (points sc)" "fst ?r = Some (point_id p)"
    "pixelDist ?x ?y (?proj p) = Some (snd ?r)" "snd ?r < 20"
    using res by auto
  moreover have "\<forall>q\<in>set (points sc). \<forall>d. pixelDist ?x ?y (?proj q) = Some d \<longrightarrow> snd ?r \<le> d"
    using res by blast
  ultimately show ?thesis
    using assms unfolding r clickDist_def by auto
qed

lemma clickHitTest_miss:
  "fst (clickHitTest cv sc st e) = None
   \<longleftrightarrow> (\<forall>q\<in>set (points sc). \<forall>d. clickDist cv st e q = Some d \<longrightarrow> 20 \<le> d)"
proof -
  let ?proj = "\<lambda>p. project (rotation st) (scale st) p (canvas_width cv) (canvas_height cv)"
  let ?x = "clientX e - rect_left cv" and ?y = "clientY e - rect_top cv"
  let ?r = "hitTest ?proj ?x ?y (points sc) (None, 20)"
  have r: "clickHitTest cv sc st e = ?r" by (simp add: clickHitTest_def Let_def)
  note res = hitTest_result [of ?proj ?x ?y "points sc" "(None, 20)"]
  show ?thesis
  proof
    assume "fst (clickHitTest cv sc st e) = None"
    then have "?r = (None, 20)" using res r by auto
    then show "\<forall>q\<in>set (points sc). \<forall>d. clickDist cv st e q = Some d \<longrightarrow> 20 \<le> d"
      using res unfolding clickDist_def by auto
  next
    assume far: "\<forall>q\<in>set (points sc). \<forall>d. clickDist cv st e q = Some d \<longrightarrow> 20 \<le> d"
    show "fst (clickHitTest cv sc st e) = None"
    proof (cases "fst (clickHitTest cv sc st e)")
      case None
      then show ?thesis .
    next
      case (Some i)
      from clickHitTest_hit [OF this] far show ?thesis by fastforce
    qed
  qed
qed

text \<open>
  C7. The hit test of a click projects every scene point with the current rotation,
  scale and canvas size. When it finds an id, a scene point of that id lies at the
  distance it reports, which is below 20 px and no larger than the distance of any other
  scene point. It finds none exactly when no scene point is strictly within 20 px. Such
  a click on empty space clears the selection in detail mode and changes nothing in
  measurement mode; a click that found a non-empty id in detail mode selects it.
\<close>

theorem hit_test_nearest_within_radius:
  "(fst (clickHitTest cv sc st e) = Some i \<longrightarrow>
      (\<exists>p\<in>set (points sc). point_id p = i
          \<and> clickDist cv st e p = Some (snd (clickHitTest cv sc st e))
          \<and> snd (clickHitTest cv sc st e) < 20
          \<and> (\<forall>q\<in>set (points sc). \<forall>d. clickDist cv st e q = Some d
                \<longrightarrow> snd (clickHitTest cv sc st e) \<le> d)))
   \<and> (fst (clickHitTest cv sc st e) = None
        \<longleftrightarrow> (\<forall>q\<in>set (points sc). \<forall>d. clickDist cv st e q = Some d \<longrightarrow> 20 \<le> d))
   \<and> (canvas env = Some cv
        \<and> (\<forall>q\<in>set (points (scene env)). \<forall>d. clickDist cv st e q = Some d \<longrightarrow> 20 \<le> d)
      \<longrightarrow> handleCanvasClick env e st
            = (if isMeasurementMode st then st else st\<lparr> selectedPointId := None \<rparr>))
   \<and> (canvas env = Some cv \<and> fst (clickHitTest cv (scene env) st e) = Some i \<and> i \<noteq> []
        \<and> \<not> isMeasurementMode st
      \<longrightarrow> handleCanvasClick env e st = st\<lparr> selectedPointId := Some i \<rparr>)"
proof -
  have hit: "fst (clickHitTest cv sc st e) = Some i \<longrightarrow>
      (\<exists>p\<in>set (points sc). point_id p = i
          \<and> clickDist cv st e p = Some (snd (clickHitTest cv sc st e))
          \<and> snd (clickHitTest cv sc st e) < 20
          \<and> (\<forall>q\<in>set (points sc). \<forall>d. clickDist cv st e q = Some d
                \<longrightarrow> snd (clickHitTest cv sc st e) \<le> d))"
    using clickHitTest_hit by blast
  have empty: "handleCanvasClick env e st
            = (if isMeasurementMode st then st else st\<lparr> selectedPointId := None \<rparr>)"
    if "canvas env = Some cv"
      and "\<forall>q\<in>set (points (scene env)). \<forall>d. clickDist cv st e q = Some d \<longrightarrow> 20 \<le> d"
  proof -
    have "fst (clickHitTest cv (scene env) st e) = None"
      using that(2) by (simp only: clickHitTest_miss)
    then show ?thesis
      using that(1)
      by (simp add: handleCanvasClick_def truthy_def clickedEmptySpace_def Let_def)
  qed
  have detail: "handleCanvasClick env e st = st\<lparr> selectedPointId := Some i \<rparr>"
    if "canvas env = Some cv" "fst (clickHitTest cv (scene env) st e) = Some i" "i \<noteq> []"
      "\<not> isMeasurementMode st"
    using that by (simp add: handleCanvasClick_def truthy_def Let_def)
  show ?thesis
    using hit clickHitTest_miss [of cv sc st e] empty detail by blast
qed

text \<open>A click on \<open>A\<close> and a click far from every point of the concrete scene.\<close>

theorem hit_test_nearest_within_radius_witness:
  "fst (clickHitTest example_canvas example_scene front_view (click_at 400 300)) = Some ''A''
   \<and> (\<exists>p \<in> set (points example_scene). point_id p = ''A''
         \<and> clickDist example_canvas front_view (click_at 400 300) p = Some 0)
   \<and> handleCanvasClick example_env (click_at 400 300) front_view
       = front_view\<lparr> selectedPointId := Some ''A'' \<rparr>
   \<and> fst (clickHitTest example_canvas example_scene front_view (click_at 10 10)) = None
   \<and> handleCanvasClick example_env (click_at 10 10) (front_view\<lparr> selectedPointId := Some ''A'' \<rparr>)
       = front_view\<lparr> selectedPointId := None \<rparr>
   \<and> handleCanvasClick example_env (click_at 10 10) (measuring_view\<lparr> measurePoints := [''A''] \<rparr>)
       = measuring_view\<lparr> measurePoints := [''A''] \<rparr>"
proof -
  have cam: "rotation front_view = \<lparr> rot_x = 0, rot_y = 0 \<rparr>" "scale front_view = 100"
    "\<not> isMeasurementMode front_view"
    by (simp_all add: front_view_def initialState_def)
  have env: "canvas example_env = Some example_canvas" "scene example_env = example_scene"
    by (simp_all add: example_env_def)
  have hitA: "clickHitTest example_canvas example_scene front_view (click_at 400 300)
              = (Some ''A'', 0)"
    using cam by (simp add: example_hits)
  have a: "fst (clickHitTest example_canvas example_scene front_view (click_at 400 300)) = Some ''A''"
    by (simp add: hitA)
  note at_A = hit_test_nearest_within_radius [where cv = example_canvas and sc = example_scene
      and st = front_view and e = "click_at 400 300" and i = "''A''" and env = example_env]
  have b: "\<exists>p \<in> set (points example_scene). point_id p = ''A''
         \<and> clickDist example_canvas front_view (click_at 400 300) p = Some 0"
    using at_A a hitA by auto
  have c: "handleCanvasClick example_env (click_at 400 300) front_view
       = front_view\<lparr> selectedPointId := Some ''A'' \<rparr>"
    using at_A a env cam by simp
  have miss: "fst (clickHitTest example_canvas example_scene st (click_at 10 10)) = None"
    if "rotation st = \<lparr> rot_x = 0, rot_y = 0 \<rparr>" "scale st = 100" for st
    using that by (simp add: example_hits)
  have far: "\<forall>q\<in>set (points (scene example_env)).
               \<forall>d. clickDist example_canvas st (click_at 10 10) q = Some d \<longrightarrow> 20 \<le> d"
    if "rotation st = \<lparr> rot_x = 0, rot_y = 0 \<rparr>" "scale st = 100" for st
    using hit_test_nearest_within_radius [where cv = example_canvas and sc = example_scene
        and st = st and e = "click_at 10 10"] miss [OF that] env
    by simp
  have d: "handleCanvasClick example_env (click_at 10 10)
             (front_view\<lparr> selectedPointId := Some ''A'' \<rparr>)
           = front_view\<lparr> selectedPointId := None \<rparr>"
    using hit_test_nearest_within_radius [where cv = example_canvas
        and st = "front_view\<lparr> selectedPointId := Some ''A'' \<rparr>" and e = "click_at 10 10"
        and env = example_env]
      far [of "front_view\<lparr> selectedPointId := Some ''A'' \<rparr>"] cam env
    by simp
  have e: "handleCanvasClick example_env (click_at 10 10)
             (measuring_view\<lparr> measurePoints := [''A''] \<rparr>)
           = measuring_view\<lparr> measurePoints := [''A''] \<rparr>"
    using hit_test_nearest_within_radius [where cv = example_canvas
        and st = "measuring_view\<lparr> measurePoints := [''A''] \<rparr>" and e = "click_at 10 10"
        and env = example_env]
      far [of "measuring_view\<lparr> measurePoints := [''A''] \<rparr>"] cam env
    by (simp add: measuring_view_def)
  show ?thesis using a b c miss [OF cam(1,2)] d e by simp
qed

section \<open>Properties of the draw pass\<close>

lemma dom_projectAll_from:
  "dom (foldl (\<lambda>m p. m(point_id p \<mapsto> proj p)) m0 ps) = dom m0 \<union> point_id ` set ps"
  by (induction ps arbitrary: m0) auto

lemma dom_projectAll: "dom (projectAll proj ps) = point_id ` set ps"
  by (simp add: projectAll_def dom_projectAll_from)

lemma dom_framePoints: "dom (framePoints cv sc st) = point_id ` set (points sc)"
  by (simp add: framePoints_def dom_projectAll)

lemma drawSegment_dangling:
  assumes "\<not> (sourceId seg \<in> dom pm \<and> targetId seg \<in> dom pm)"
  shows "drawSegment pm seg = []"
  using assms by (auto simp: drawSegment_def split: option.splits)

lemma drawSegment_resolved:
  assumes "pm (sourceId seg) = Some p1" and "pm (targetId seg) = Some p2"
  shows "drawSegment pm seg = [SegmentLine p1 p2 (style seg)]"
  using assms by (simp add: drawSegment_def)

lemma drawSegments_filter:
  "drawSegments pm (filter (\<lambda>s. sourceId s \<in> dom pm \<and> targetId s \<in> dom pm) segs)
   = drawSegments pm segs"
  by (induction segs) (simp_all add: drawSegments_def drawSegment_dangling)

lemma draw_mounted:
  "draw (Some cv) sc st =
     (let proj = (\<lambda>p. project (rotation st) (scale st) p (canvas_width cv) (canvas_height cv));
          dots = foldl (drawPoint (framePoints cv sc st) st) ([], None) (points sc)
      in drawGrid proj @ drawAxes proj
         @ drawSegments (framePoints cv sc st) (segments sc)
         @ drawMeasurement (framePoints cv sc st) (points sc) (measurePoints st)
         @ fst dots
         @ (case snd dots of
              None \<Rightarrow> []
            | Some (sproj, sp) \<Rightarrow> [SelectedHighlight sproj (tooltipText sp)]))"
  by (simp add: draw_def framePoints_def Let_def)

lemma draw_without_dangling:
  "draw cvo (sc\<lparr> segments := filter (resolvable sc) (segments sc) \<rparr>) st = draw cvo sc st"
proof (cases cvo)
  case None
  then show ?thesis by (simp add: draw_def)
next
  case (Some cv)
  let ?sc = "sc\<lparr> segments := filter (resolvable sc) (segments sc) \<rparr>"
  have fp: "framePoints cv ?sc st = framePoints cv sc st"
    by (simp add: framePoints_def)
  have "resolvable sc
        = (\<lambda>s. sourceId s \<in> dom (framePoints cv sc st) \<and> targetId s \<in> dom (framePoints cv sc st))"
    by (simp add: resolvable_def dom_framePoints fun_eq_iff)
  then have "drawSegments (framePoints cv sc st) (filter (resolvable sc) (segments sc))
        = drawSegments (framePoints cv sc st) (segments sc)"
    by (simp only: drawSegments_filter)
  then show ?thesis
    unfolding Some draw_mounted fp by simp
qed

lemma segment_drawn:
  assumes "seg \<in> set (segments sc)" and "resolvable sc seg"
  shows "\<exists>p1 p2. framePoints cv sc st (sourceId seg) = Some p1
           \<and> framePoints cv sc st (targetId seg) = Some p2
           \<and> SegmentLine p1 p2 (style seg) \<in> set (draw (Some cv) sc st)"
proof -
  from assms(2) obtain p1 p2 where p: "framePoints cv sc st (sourceId seg) = Some p1"
      "framePoints cv sc st (targetId seg) = Some p2"
    using dom_framePoints [of cv sc st] unfolding resolvable_def by (metis domD)
  then have "SegmentLine p1 p2 (style seg) \<in> set (drawSegments (framePoints cv sc st) (segments sc))"
    using assms(1) drawSegment_resolved [OF p]
    by (force simp: drawSegments_def)
  then show ?thesis
    using p unfolding draw_mounted Let_def by auto
qed

lemma drawPoint_foldl:
  "\<forall>p\<in>set ps. \<forall>pr. pm (point_id p) = Some pr \<longrightarrow>
     (if pointSelected st p
      then \<exists>sp\<in>set ps. point_id sp = point_id p
              \<and> snd (foldl (drawPoint pm st) ([], None) ps) = Some (pr, sp)
      else PointDot pr (point_id p \<in> set (measurePoints st))
             (if truthy (point_label p) then point_label p else None)
           \<in> set (fst (foldl (drawPoint pm st) ([], None) ps)))"
proof (induction ps rule: rev_induct)
  case Nil
  show ?case by simp
next
  case (snoc q ps)
  define r where "r = foldl (drawPoint pm st) ([], None) ps"
  define dot where "dot = (\<lambda>(p::Point3D) pr. PointDot pr (point_id p \<in> set (measurePoints st))
             (if truthy (point_label p) then point_label p else None))"
  have r': "foldl (drawPoint pm st) ([], None) (ps @ [q]) = drawPoint pm st r q"
    by (simp add: r_def)
  have goal: "if pointSelected st p
      then \<exists>sp\<in>set (ps @ [q]). point_id sp = point_id p
              \<and> snd (drawPoint pm st r q) = Some (pr, sp)
      else dot p pr \<in> set (fst (drawPoint pm st r q))"
    if p: "p \<in> set (ps @ [q])" and pr: "pm (point_id p) = Some pr" for p pr
  proof -
    have old_sel: "\<exists>sp\<in>set ps. point_id sp = point_id p \<and> snd r = Some (pr, sp)"
      if "p \<in> set ps" "pointSelected st p"
      using snoc.IH that pr unfolding r_def by (auto split: if_splits)
    have old_dot: "dot p pr \<in> set (fst r)"
      if "p \<in> set ps" "\<not> pointSelected st p"
      using snoc.IH that pr unfolding r_def dot_def by (auto split: if_splits)
    show ?thesis
    proof (cases "pm (point_id q)")
      case None
      then have same: "drawPoint pm st r q = r" by (simp add: drawPoint_def)
      from None pr have "p \<noteq> q" by auto
      then have "p \<in> set ps" using p by simp
      then show ?thesis
        unfolding same using old_sel old_dot by (cases "pointSelected st p") auto
    next
      case (Some qr)
      show ?thesis
      proof (cases "pointSelected st q")
        case True
        then have upd: "drawPoint pm st r q = (fst r, Some (qr, q))"
          using Some by (simp add: drawPoint_def pointSelected_def)
        show ?thesis
        proof (cases "pointSelected st p")
          case sel: True
          then have same_id: "point_id q = point_id p"
            using True by (metis pointSelected_def option.inject)
          then have "qr = pr" using Some pr by simp
          then have "q \<in> set (ps @ [q]) \<and> point_id q = point_id p
              \<and> snd (drawPoint pm st r q) = Some (pr, q)"
            using same_id upd by simp
          then show ?thesis using sel by (simp only: if_True) (rule bexI [of _ q], simp_all)
        next
          case unsel: False
          then have "p \<noteq> q" using True by auto
          then have "p \<in> set ps" using p by simp
          then have "dot p pr \<in> set (fst r)" using unsel by (rule old_dot)
          then show ?thesis using unsel upd by simp
        qed
      next
        case False
        then have upd: "drawPoint pm st r q = (fst r @ [dot q qr], snd r)"
          using Some by (auto simp: drawPoint_def pointSelected_def dot_def)
        show ?thesis
        proof (cases "p = q")
          case True
          then have "qr = pr" using Some pr by simp
          then show ?thesis using False True upd by simp
        next
          case ne: False
          then have in_ps: "p \<in> set ps" using p by simp
          show ?thesis
          proof (cases "pointSelected st p")
            case True
            from old_sel [OF in_ps True] obtain sp where "sp \<in> set ps"
              "point_id sp = point_id p" "snd r = Some (pr, sp)" by blast
            then have "sp \<in> set (ps @ [q]) \<and> point_id sp = point_id p
                \<and> snd (drawPoint pm st r q) = Some (pr, sp)"
              using upd by simp
            then show ?thesis using True by (simp only: if_True) blast
          next
            case False
            from old_dot [OF in_ps False] show ?thesis using False upd by simp
          qed
        qed
      qed
    qed
  qed
  show ?case
    unfolding r' using goal unfolding dot_def by blast
qed

lemma point_drawn:
  assumes "p \<in> set (points sc)"
  shows "\<exists>pr. framePoints cv sc st (point_id p) = Some pr
     \<and> (if pointSelected st p
         then \<exists>sp\<in>set (points sc). point_id sp = point_id p
                \<and> SelectedHighlight pr (tooltipText sp) \<in> set (draw (Some cv) sc st)
         else PointDot pr (point_id p \<in> set (measurePoints st))
                (if truthy (point_label p) then point_label p else None)
              \<in> set (draw (Some cv) sc st))"
proof -
  obtain pr where pr: "framePoints cv sc st (point_id p) = Some pr"
    using assms dom_framePoints [of cv sc st] by (metis domD imageI)
  note fold = drawPoint_foldl [of "points sc" "framePoints cv sc st" st, rule_format, OF assms pr]
  show ?thesis
  proof (cases "pointSelected st p")
    case True
    then obtain sp where "sp \<in> set (points sc)" "point_id sp = point_id p"
      "snd (foldl (drawPoint (framePoints cv sc st) st) ([], None) (points sc)) = Some (pr, sp)"
      using fold by auto
    then show ?thesis
      using pr True unfolding draw_mounted Let_def by auto
  next
    case False
    then show ?thesis
      using pr fold unfolding draw_mounted Let_def by auto
  qed
qed

text \<open>
  C9. A segment whose source or target id is the id of no scene point contributes no
  canvas call, and a draw pass is the same with and without such segments. Every other
  segment is stroked between the projections of its two ids, and every scene point is
  drawn at the projection of its id, as a dot or as the selected highlight. The pass has
  no failing branch.
\<close>

theorem dangling_segment_skipped:
  "(\<not> resolvable sc seg \<longrightarrow> drawSegment (framePoints cv sc st) seg = [])
   \<and> draw cvo (sc\<lparr> segments := filter (resolvable sc) (segments sc) \<rparr>) st = draw cvo sc st
   \<and> (seg \<in> set (segments sc) \<and> resolvable sc seg \<longrightarrow>
        (\<exists>p1 p2. framePoints cv sc st (sourceId seg) = Some p1
           \<and> framePoints cv sc st (targetId seg) = Some p2
           \<and> SegmentLine p1 p2 (style seg) \<in> set (draw (Some cv) sc st)))
   \<and> (p \<in> set (points sc) \<longrightarrow>
        (\<exists>pr. framePoints cv sc st (point_id p) = Some pr
           \<and> (if pointSelected st p
               then \<exists>sp\<in>set (points sc). point_id sp = point_id p
                      \<and> SelectedHighlight pr (tooltipText sp) \<in> set (draw (Some cv) sc st)
               else PointDot pr (point_id p \<in> set (measurePoints st))
                      (if truthy (point_label p) then point_label p else None)
                    \<in> set (draw (Some cv) sc st))))"
proof -
  have "\<not> resolvable sc seg \<longrightarrow> drawSegment (framePoints cv sc st) seg = []"
    using drawSegment_dangling [of seg "framePoints cv sc st"]
    by (simp add: resolvable_def dom_framePoints)
  then show ?thesis
    using draw_without_dangling segment_drawn point_drawn by blast
qed

text \<open>The concrete scene: its segment to the missing id \<open>Z\<close> and its segment \<open>A\<close>-\<open>B\<close>.\<close>

theorem dangling_segment_skipped_witness:
  "\<not> resolvable example_scene dangling_segment
   \<and> drawSegment (framePoints example_canvas example_scene front_view) dangling_segment = []
   \<and> draw (Some example_canvas) (example_scene\<lparr> segments := [sound_segment] \<rparr>) front_view
       = draw (Some example_canvas) example_scene front_view
   \<and> sound_segment \<in> set (segments example_scene)
   \<and> resolvable example_scene sound_segment
   \<and> SegmentLine (project (rotation front_view) (scale front_view) (example_point ''A'' 0 0 0) 800 600)
        (project (rotation front_view) (scale front_view) (example_point ''B'' 4 0 0) 800 600) solid
      \<in> set (draw (Some example_canvas) example_scene front_view)
   \<and> example_point ''B'' 4 0 0 \<in> set (points example_scene)
   \<and> PointDot (project (rotation front_view) (scale front_view) (example_point ''B'' 4 0 0) 800 600)
        False None
      \<in> set (draw (Some example_canvas) example_scene front_view)"
proof -
  have segs: "segments example_scene = [sound_segment, dangling_segment]"
    by (simp add: example_scene_def sound_segment_def dangling_segment_def)
  have d: "\<not> resolvable example_scene dangling_segment"
    by (simp add: resolvable_def example_scene_def example_point_def dangling_segment_def)
  have s: "resolvable example_scene sound_segment"
    by (simp add: resolvable_def example_scene_def example_point_def sound_segment_def)
  have fp: "framePoints example_canvas example_scene front_view ''A''
        = Some (project (rotation front_view) (scale front_view) (example_point ''A'' 0 0 0) 800 600)"
    "framePoints example_canvas example_scene front_view ''B''
        = Some (project (rotation front_view) (scale front_view) (example_point ''B'' 4 0 0) 800 600)"
    by (simp_all add: framePoints_def projectAll_def example_scene_def example_canvas_def
          example_point_def)
  have filt: "filter (resolvable example_scene) (segments example_scene) = [sound_segment]"
    using d s by (simp add: segs)
  have b: "example_point ''B'' 4 0 0 \<in> set (points example_scene)"
    by (simp add: example_scene_def)
  have unsel: "\<not> pointSelected front_view (example_point ''B'' 4 0 0)"
    "measurePoints front_view = []" "point_label (example_point ''B'' 4 0 0) = None"
    "point_id (example_point ''B'' 4 0 0) = ''B''"
    by (simp_all add: pointSelected_def front_view_def initialState_def example_point_def)
  note inst = dangling_segment_skipped [where sc = example_scene and cv = example_canvas
      and st = front_view and cvo = "Some example_canvas"]
  have 1: "drawSegment (framePoints example_canvas example_scene front_view) dangling_segment = []"
    using inst [where seg = dangling_segment] d by blast
  have 2: "draw (Some example_canvas) (example_scene\<lparr> segments := [sound_segment] \<rparr>) front_view
       = draw (Some example_canvas) example_scene front_view"
    using inst filt by simp
  have 3: "SegmentLine (project (rotation front_view) (scale front_view) (example_point ''A'' 0 0 0) 800 600)
        (project (rotation front_view) (scale front_view) (example_point ''B'' 4 0 0) 800 600) solid
      \<in> set (draw (Some example_canvas) example_scene front_view)"
    using inst [where seg = sound_segment] s fp segs by (simp add: sound_segment_def)
  have 4: "PointDot (project (rotation front_view) (scale front_view) (example_point ''B'' 4 0 0) 800 600)
        False None
      \<in> set (draw (Some example_canvas) example_scene front_view)"
    using inst [where p = "example_point ''B'' 4 0 0"] b unsel fp(2)
    by (simp add: truthy_def)
  show ?thesis using d s 1 2 3 4 b segs by simp
qed

lemma badgeTexts_append: "badgeTexts (xs @ ys) = badgeTexts xs @ badgeTexts ys"
  by (induction xs rule: badgeTexts.induct) simp_all

lemma badgeTexts_concat_none:
  assumes "\<forall>x\<in>set xs. badgeTexts (f x) = []"
  shows "badgeTexts (concat (map f xs)) = []"
  using assms by (induction xs) (simp_all add: badgeTexts_append)

lemma badgeTexts_drawGrid: "badgeTexts (drawGrid proj) = []"
  unfolding drawGrid_def Let_def by (rule badgeTexts_concat_none) simp

lemma badgeTexts_drawAxes: "badgeTexts (drawAxes proj) = []"
  by (simp add: drawAxes_def Let_def)

lemma badgeTexts_drawSegments: "badgeTexts (drawSegments pm segs) = []"
  unfolding drawSegments_def
  by (rule badgeTexts_concat_none) (simp add: drawSegment_def split: option.splits)

lemma badgeTexts_drawPoint: "badgeTexts (fst (drawPoint pm st acc p)) = badgeTexts (fst acc)"
  by (simp add: drawPoint_def badgeTexts_append split: option.splits)

lemma badgeTexts_dots:
  "badgeTexts (fst (foldl (drawPoint pm st) acc ps)) = badgeTexts (fst acc)"
  by (induction ps arbitrary: acc) (simp_all add: badgeTexts_drawPoint)

lemma find_in_dom:
  assumes "find P pts = Some p" and "dom pm = point_id ` set pts"
  shows "\<exists>pr. pm (point_id p) = Some pr"
proof -
  have "p \<in> set pts" using assms(1) by (auto simp: find_Some_iff)
  then show ?thesis using assms(2) by (metis domD imageI)
qed

lemma badgeTexts_drawMeasurement:
  assumes "dom pm = point_id ` set pts"
  shows "badgeTexts (drawMeasurement pm pts mps)
         = (case measuredPair pts mps of
              None \<Rightarrow> []
            | Some (p1, p2) \<Rightarrow> [toFixed2 (getDistance p1 p2)])"
proof (cases "length mps > 1")
  case False
  then show ?thesis
    by (auto simp: drawMeasurement_def measuredPair_def Let_def badgeTexts_append
          split: option.splits)
next
  case True
  then have ne: "mps \<noteq> []" by auto
  show ?thesis
  proof (cases "find (\<lambda>p. point_id p = mps ! 0) pts")
    case None
    then show ?thesis using True ne
      by (auto simp: drawMeasurement_def measuredPair_def Let_def badgeTexts_append
            split: option.splits)
  next
    case p1: (Some p1)
    from find_in_dom [OF p1 assms] obtain a where a: "pm (point_id p1) = Some a" by blast
    show ?thesis
    proof (cases "find (\<lambda>p. point_id p = mps ! 1) pts")
      case None
      then show ?thesis using True ne p1 a
        by (simp add: drawMeasurement_def measuredPair_def Let_def badgeTexts_append)
    next
      case p2: (Some p2)
      from find_in_dom [OF p2 assms] obtain b where b: "pm (point_id p2) = Some b" by blast
      show ?thesis using True ne p1 p2 a b
        by (simp add: drawMeasurement_def measuredPair_def Let_def badgeTexts_append)
    qed
  qed
qed

lemma badgeTexts_draw:
  "badgeTexts (draw (Some cv) sc st)
   = (case measuredPair (points sc) (measurePoints st) of
        None \<Rightarrow> []
      | Some (p1, p2) \<Rightarrow> [toFixed2 (getDistance p1 p2)])"
proof -
  have "badgeTexts (draw (Some cv) sc st)
        = badgeTexts (drawMeasurement (framePoints cv sc st) (points sc) (measurePoints st))"
    unfolding draw_mounted Let_def
    by (simp add: badgeTexts_append badgeTexts_drawGrid badgeTexts_drawAxes
          badgeTexts_drawSegments badgeTexts_dots split: option.splits)
  then show ?thesis
    by (simp add: badgeTexts_drawMeasurement dom_framePoints)
qed

lemma sqrt_25: "sqrt 25 = 5"
  using real_sqrt_abs [of 5] by simp

lemma toFixed2_5: "toFixed2 5 = ''5.00''"
  by (simp add: toFixed2_def digit_char_def Let_def)

text \<open>
  C5. \<open>getDistance\<close> is the Euclidean distance of the world coordinates. The badge text
  of a draw pass is its two-decimal rendering for the two measured points and is the
  same for every rotation, scale and canvas size. For \<open>(0, 0, 0)\<close> and \<open>(3, 4, 0)\<close> it
  is \<open>5.00\<close>.
\<close>

theorem measurement_distance_camera_invariant:
  "getDistance p1 p2
     = sqrt ((point_x p2 - point_x p1)\<^sup>2 + (point_y p2 - point_y p1)\<^sup>2
             + (point_z p2 - point_z p1)\<^sup>2)
   \<and> badgeTexts (draw (Some cv) sc st)
       = (case measuredPair (points sc) (measurePoints st) of
            None \<Rightarrow> []
          | Some (a, b) \<Rightarrow> [toFixed2 (getDistance a b)])
   \<and> badgeTexts (draw (Some cv') sc (st\<lparr> rotation := rot, scale := s \<rparr>))
       = badgeTexts (draw (Some cv) sc st)
   \<and> (measuredPair (points sc) (measurePoints st) = Some (a, b)
        \<and> coords a = (0, 0, 0) \<and> coords b = (3, 4, 0)
      \<longrightarrow> badgeTexts (draw (Some cv) sc st) = [''5.00''])"
proof -
  have five: "getDistance a b = 5" if "coords a = (0, 0, 0)" "coords b = (3, 4, 0)"
    using that by (simp add: getDistance_def coords_def sqrt_25)
  show ?thesis
    by (auto simp: badgeTexts_draw five toFixed2_5 getDistance_def [of p1 p2])
qed

text \<open>
  The points \<open>A\<close> and \<open>C\<close> of the concrete scene, in the front view and in a turned,
  zoomed view.
\<close>

theorem measurement_distance_camera_invariant_witness:
  "measuredPair (points example_scene)
       (measurePoints (measuring_view\<lparr> measurePoints := [''A'', ''C''] \<rparr>))
     = Some (example_point ''A'' 0 0 0, example_point ''C'' 3 4 0)
   \<and> coords (example_point ''A'' 0 0 0) = (0, 0, 0)
   \<and> coords (example_point ''C'' 3 4 0) = (3, 4, 0)
   \<and> badgeTexts (draw (Some example_canvas) example_scene
                   (measuring_view\<lparr> measurePoints := [''A'', ''C''] \<rparr>)) = [''5.00'']
   \<and> badgeTexts (draw (Some example_canvas) example_scene
                   (measuring_view\<lparr> measurePoints := [''A'', ''C''],
                      rotation := \<lparr> rot_x = - 0.5, rot_y = 0.5 \<rparr>, scale := 500 \<rparr>)) = [''5.00'']"
proof -
  let ?st = "measuring_view\<lparr> measurePoints := [''A'', ''C''] \<rparr>"
  have pair: "measuredPair (points example_scene) (measurePoints ?st)
     = Some (example_point ''A'' 0 0 0, example_point ''C'' 3 4 0)"
    by (simp add: measuredPair_def example_scene_def example_point_def)
  have ca: "coords (example_point ''A'' 0 0 0) = (0, 0, 0)"
    and cc: "coords (example_point ''C'' 3 4 0) = (3, 4, 0)"
    by (simp_all add: coords_def example_point_def)
  note inst = measurement_distance_camera_invariant [where sc = example_scene and st = ?st
      and a = "example_point ''A'' 0 0 0" and b = "example_point ''C'' 3 4 0"
      and cv = example_canvas and cv' = example_canvas
      and rot = "\<lparr> rot_x = - 0.5, rot_y = 0.5 \<rparr>" and s = 500]
  have front: "badgeTexts (draw (Some example_canvas) example_scene ?st) = [''5.00'']"
    using inst pair ca cc by blast
  have turned: "badgeTexts (draw (Some example_canvas) example_scene
                   (?st\<lparr> rotation := \<lparr> rot_x = - 0.5, rot_y = 0.5 \<rparr>, scale := 500 \<rparr>))
                = [''5.00'']"
    using inst front by simp
  show ?thesis using pair ca cc front turned by simp
qed

end
